theory Spec2Isabelle
  imports Main
begin

section \<open>Python values, exceptions and observable events\<close>

text \<open>
  The client of \<^verbatim>\<open>app/kube_client.py\<close> is a thin layer over the Kubernetes
  Python library. The library is not part of the repository, so it enters the model
  as a parameter (the record \<open>backend\<close> below); everything the class
  \<^verbatim>\<open>KubeClient\<close> itself does is translated function by function.

  Strings are \<open>string\<close>; the case folding of \<^verbatim>\<open>str.lower\<close> is modelled on
  the ASCII letters and leaves every other character unchanged.
\<close>

datatype pyval = PNone | PBool bool | PInt int | PStr string

text \<open>
  Exceptions derived from \<^verbatim>\<open>Exception\<close>. The code distinguishes only
  \<^verbatim>\<open>AttributeError\<close> from the rest; each carries the text of \<^verbatim>\<open>str(e)\<close>.
\<close>

datatype exn = AttributeError string | OtherException string

fun exn_str :: "exn \<Rightarrow> string" where
  "exn_str (AttributeError m) = m"
| "exn_str (OtherException m) = m"

text \<open>The objects the constructor stores in attributes of the client.\<close>

datatype api_handle = ApiClient | CoreV1Api | AppsV1Api | NetworkingV1Api | EventsV1Api

type_synonym kwargs = "(string \<times> pyval) list"

text \<open>
  What an operation does besides returning: lines written by \<^verbatim>\<open>print\<close>, and
  invocations of a method of an API object: \<open>Call h m kw\<close> says that the method \<open>m\<close>
  of \<open>h\<close> was found and called with the keyword arguments \<open>kw\<close>. Looking up a
  method that the object does not have invokes nothing and leaves no event.
\<close>

datatype event = Print string | Call api_handle string kwargs

text \<open>
  The library, as far as the client uses it:
  \<^item> \<open>getattr h m\<close> is the method \<open>m\<close> of the API object \<open>h\<close>, a function from
    the keyword arguments to the outcome of the call, or \<open>None\<close> when \<open>h\<close> has no
    attribute of that name;
  \<^item> \<open>items r\<close> is \<^verbatim>\<open>r.items\<close>;
  \<^item> \<open>sanitize_for_serialization\<close> is the method of that name of the API client;
  \<^item> \<open>read_namespaced_pod_log kw\<close> is the outcome of that method of the core API.
\<close>

record ('o, 'd) backend =
  getattr :: "api_handle \<Rightarrow> string \<Rightarrow> (kwargs \<Rightarrow> exn + 'o) option"
  items :: "'o \<Rightarrow> exn + 'o list"
  sanitize_for_serialization :: "'o \<Rightarrow> exn + 'd"
  read_namespaced_pod_log :: "kwargs \<Rightarrow> exn + string"

section \<open>String helpers of Python\<close>

definition lower_char :: "char \<Rightarrow> char" where
  "lower_char c =
     (if (65::nat) \<le> of_char c \<and> of_char c \<le> (90::nat)
      then char_of (of_char c + (32::nat)) else c)"

definition lower :: "string \<Rightarrow> string" where
  "lower s = map lower_char s"

definition endswith :: "string \<Rightarrow> string \<Rightarrow> bool" where
  "endswith s suf = (length suf \<le> length s \<and> drop (length s - length suf) s = suf)"

definition quoted :: "string \<Rightarrow> string" where
  "quoted s = CHR 0x27 # s @ [CHR 0x27]"

definition no_attribute :: "string \<Rightarrow> string \<Rightarrow> string" where
  "no_attribute cls name = quoted cls @ '' object has no attribute '' @ quoted name"

section \<open>The client object and its construction\<close>

text \<open>An attribute that was never assigned is \<open>None\<close>; reading it raises.\<close>

record kube_client =
  api_client :: "api_handle option"
  core_v1_api :: "api_handle option"
  apps_v1_api :: "api_handle option"
  ingress_v1_api :: "api_handle option"
  networking_v1_api :: "api_handle option"
  events_1_api :: "api_handle option"

definition new_object :: kube_client where
  "new_object = \<lparr>api_client = None, core_v1_api = None, apps_v1_api = None,
     ingress_v1_api = None, networking_v1_api = None, events_1_api = None\<rparr>"

definition get_attr :: "string \<Rightarrow> api_handle option \<Rightarrow> exn + api_handle" where
  "get_attr name v =
     (case v of None \<Rightarrow> Inl (AttributeError (no_attribute ''KubeClient'' name))
      | Some h \<Rightarrow> Inr h)"

text \<open>
  Both \<^verbatim>\<open>__init__\<close> and \<^verbatim>\<open>aconnect\<close> run \<^verbatim>\<open>config.load_kube_config()\<close>
  and then five assignments inside one \<^verbatim>\<open>try\<close>. The outcome of the block is a
  parameter: \<open>None\<close> when no statement raises, \<open>Some (k, e)\<close> when statement \<open>k\<close>
  (counted from 0, the loading of the configuration) raises \<open>e\<close>; the assignments before
  it have taken effect, the warning is printed and the object is kept. The block has six
  statements, so an index above 5 names no statement and nothing is raised.
\<close>

definition init_assignments :: "(kube_client \<Rightarrow> kube_client) list" where
  "init_assignments =
     [\<lambda>c. c\<lparr>api_client := Some ApiClient\<rparr>,
      \<lambda>c. c\<lparr>core_v1_api := Some CoreV1Api\<rparr>,
      \<lambda>c. c\<lparr>apps_v1_api := Some AppsV1Api\<rparr>,
      \<lambda>c. c\<lparr>ingress_v1_api := Some NetworkingV1Api\<rparr>,
      \<lambda>c. c\<lparr>events_1_api := Some EventsV1Api\<rparr>]"

definition aconnect_assignments :: "(kube_client \<Rightarrow> kube_client) list" where
  "aconnect_assignments =
     [\<lambda>c. c\<lparr>api_client := Some ApiClient\<rparr>,
      \<lambda>c. c\<lparr>core_v1_api := Some CoreV1Api\<rparr>,
      \<lambda>c. c\<lparr>apps_v1_api := Some AppsV1Api\<rparr>,
      \<lambda>c. c\<lparr>networking_v1_api := Some NetworkingV1Api\<rparr>,
      \<lambda>c. c\<lparr>events_1_api := Some EventsV1Api\<rparr>]"

definition connect_block ::
  "(kube_client \<Rightarrow> kube_client) list \<Rightarrow> (nat \<times> exn) option \<Rightarrow> kube_client
     \<Rightarrow> event list \<times> kube_client" where
  "connect_block assigns outcome c =
     (case outcome of
        None \<Rightarrow> ([], fold (\<lambda>f s. f s) assigns c)
      | Some (k, e) \<Rightarrow>
          if k \<le> length assigns
          then ([Print (''Warning: Failed to connect to Kubernetes cluster: '' @ exn_str e)],
                fold (\<lambda>f s. f s) (take (k - 1) assigns) c)
          else ([], fold (\<lambda>f s. f s) assigns c))"

definition init :: "(nat \<times> exn) option \<Rightarrow> event list \<times> kube_client" where
  "init outcome = connect_block init_assignments outcome new_object"

definition aconnect :: "(nat \<times> exn) option \<Rightarrow> kube_client \<Rightarrow> event list \<times> kube_client" where
  "aconnect outcome c = connect_block aconnect_assignments outcome c"

text \<open>
  \<^verbatim>\<open>app/main.py\<close> builds its client as \<^verbatim>\<open>await KubeClient().aconnect()\<close>.
\<close>

definition app_lifespan_client :: "(nat \<times> exn) option \<Rightarrow> (nat \<times> exn) option \<Rightarrow> kube_client" where
  "app_lifespan_client o1 o2 = snd (aconnect o2 (snd (init o1)))"

section \<open>The resource registry\<close>

type_synonym registry = "(string \<times> (api_handle \<times> string)) list"

definition resource_table ::
  "api_handle \<Rightarrow> api_handle \<Rightarrow> api_handle \<Rightarrow> api_handle \<Rightarrow> registry" where
  "resource_table core apps net ev =
     [(''pod'', (core, ''pod'')),
      (''service'', (core, ''service'')),
      (''configmap'', (core, ''config_map'')),
      (''secret'', (core, ''secret'')),
      (''namespace'', (core, ''namespace'')),
      (''persistentvolumeclaim'', (core, ''persistent_volume_claim'')),
      (''persistentvolume'', (core, ''persistent_volume'')),
      (''serviceaccount'', (core, ''service_account'')),
      (''node'', (core, ''node'')),
      (''deployment'', (apps, ''deployment'')),
      (''replicaset'', (apps, ''replica_set'')),
      (''statefulset'', (apps, ''stateful_set'')),
      (''daemonset'', (apps, ''daemon_set'')),
      (''ingress'', (net, ''ingress'')),
      (''ingressclass'', (net, ''ingress_class'')),
      (''networkpolicy'', (net, ''network_policy'')),
      (''event'', (ev, ''event''))]"

text \<open>
  The dictionary display reads the four attributes of \<^verbatim>\<open>self\<close> in the order of its
  entries; the first one that is missing raises.
\<close>

definition get_resource_mapping :: "kube_client \<Rightarrow> exn + registry" where
  "get_resource_mapping c =
     (case get_attr ''core_v1_api'' (core_v1_api c) of
        Inl e \<Rightarrow> Inl e
      | Inr core \<Rightarrow>
     (case get_attr ''apps_v1_api'' (apps_v1_api c) of
        Inl e \<Rightarrow> Inl e
      | Inr apps \<Rightarrow>
     (case get_attr ''networking_v1_api'' (networking_v1_api c) of
        Inl e \<Rightarrow> Inl e
      | Inr net \<Rightarrow>
     (case get_attr ''events_1_api'' (events_1_api c) of
        Inl e \<Rightarrow> Inl e
      | Inr ev \<Rightarrow> Inr (resource_table core apps net ev)))))"

definition normalize_resource_kind :: "kube_client \<Rightarrow> string \<Rightarrow> exn + string" where
  "normalize_resource_kind c resource_kind =
     (let k = lower resource_kind in
      case get_resource_mapping c of
        Inl e \<Rightarrow> Inl e
      | Inr resources \<Rightarrow>
          Inr (if endswith k ''s'' \<and> map_of resources k = None then butlast k else k))"

definition get_api_client_and_resource_type ::
  "kube_client \<Rightarrow> string \<Rightarrow> exn + (api_handle option \<times> string option)" where
  "get_api_client_and_resource_type c resource_kind =
     (case normalize_resource_kind c resource_kind of
        Inl e \<Rightarrow> Inl e
      | Inr k \<Rightarrow>
     (case get_resource_mapping c of
        Inl e \<Rightarrow> Inl e
      | Inr resources \<Rightarrow>
          Inr (case map_of resources k of
                 None \<Rightarrow> (None, None)
               | Some (api, resource_type) \<Rightarrow> (Some api, Some resource_type))))"

section \<open>The gateway operations\<close>

definition sanitize_item :: "kube_client \<Rightarrow> ('o, 'd) backend \<Rightarrow> 'o \<Rightarrow> exn + 'd" where
  "sanitize_item c B item =
     (case get_attr ''api_client'' (api_client c) of
        Inl e \<Rightarrow> Inl e
      | Inr h \<Rightarrow> sanitize_for_serialization B item)"

fun serialize_items ::
  "kube_client \<Rightarrow> ('o, 'd) backend \<Rightarrow> 'o list \<Rightarrow> 'd list \<Rightarrow> exn + 'd list" where
  "serialize_items c B [] serializable_items = Inr serializable_items"
| "serialize_items c B (item # rest) serializable_items =
     (case sanitize_item c B item of
        Inl e \<Rightarrow> Inl e
      | Inr item_dict \<Rightarrow> serialize_items c B rest (serializable_items @ [item_dict]))"

text \<open>
  The expression \<^verbatim>\<open>getattr(api_client, method_name)(**kw)\<close>: the lookup comes first and
  raises \<^verbatim>\<open>AttributeError\<close>, with the message of Python, when the object has no such
  method; only a method that was found is invoked.
\<close>

fun class_name :: "api_handle \<Rightarrow> string" where
  "class_name ApiClient = ''ApiClient''"
| "class_name CoreV1Api = ''CoreV1Api''"
| "class_name AppsV1Api = ''AppsV1Api''"
| "class_name NetworkingV1Api = ''NetworkingV1Api''"
| "class_name EventsV1Api = ''EventsV1Api''"

definition call_method ::
  "('o, 'd) backend \<Rightarrow> api_handle \<Rightarrow> string \<Rightarrow> kwargs \<Rightarrow> event list \<times> (exn + 'o)" where
  "call_method B api method_name kw =
     (case getattr B api method_name of
        None \<Rightarrow> ([], Inl (AttributeError (no_attribute (class_name api) method_name)))
      | Some f \<Rightarrow> ([Call api method_name kw], f kw))"

text \<open>The choice of the list method (lines 101 to 112 of the source).\<close>

definition list_unscoped ::
  "('o, 'd) backend \<Rightarrow> api_handle \<Rightarrow> string \<Rightarrow> event list \<times> (exn + 'o)" where
  "list_unscoped B api resource_type =
     (case call_method B api (''list_'' @ resource_type @ ''_for_all_namespaces'') [] of
        (evs1, Inl (AttributeError msg)) \<Rightarrow>
          (case call_method B api (''list_'' @ resource_type) [] of
             (evs2, r) \<Rightarrow> (evs1 @ evs2, r))
      | (evs1, r) \<Rightarrow> (evs1, r))"

definition list_call ::
  "('o, 'd) backend \<Rightarrow> api_handle \<Rightarrow> string \<Rightarrow> string \<Rightarrow> string option
     \<Rightarrow> event list \<times> (exn + 'o)" where
  "list_call B api resource_kind resource_type namespace =
     (case namespace of
        None \<Rightarrow> list_unscoped B api resource_type
      | Some ns \<Rightarrow>
          if ns \<noteq> [] \<and> resource_kind \<noteq> ''namespace''
          then call_method B api (''list_namespaced_'' @ resource_type)
                 [(''namespace'', PStr ns)]
          else list_unscoped B api resource_type)"

definition get_resources_try ::
  "kube_client \<Rightarrow> ('o, 'd) backend \<Rightarrow> api_handle \<Rightarrow> string \<Rightarrow> string \<Rightarrow> string option
     \<Rightarrow> event list \<times> (exn + 'd list)" where
  "get_resources_try c B api resource_kind resource_type namespace =
     (case list_call B api resource_kind resource_type namespace of
        (evs, Inl e) \<Rightarrow> (evs, Inl e)
      | (evs, Inr result) \<Rightarrow>
          (evs, case items B result of
                  Inl e \<Rightarrow> Inl e
                | Inr its \<Rightarrow> serialize_items c B its []))"

definition get_resources ::
  "kube_client \<Rightarrow> ('o, 'd) backend \<Rightarrow> string \<Rightarrow> string option
     \<Rightarrow> event list \<times> (exn + 'd list)" where
  "get_resources c B resource_kind namespace =
     (case normalize_resource_kind c resource_kind of
        Inl e \<Rightarrow> ([], Inl e)
      | Inr rk \<Rightarrow>
     (case get_api_client_and_resource_type c rk of
        Inl e \<Rightarrow> ([], Inl e)
      | Inr (api_opt, rt_opt) \<Rightarrow>
     (case (api_opt, rt_opt) of
        (Some api, Some resource_type) \<Rightarrow>
          if resource_type = [] then ([], Inr [])
          else
            (let p = Print (''Getting '' @ rk @ '' from '' @
                       (case namespace of
                          None \<Rightarrow> ''all namespaces''
                        | Some ns \<Rightarrow> if ns \<noteq> [] then ns else ''all namespaces''))
             in case get_resources_try c B api rk resource_type namespace of
                  (evs, Inr serializable_items) \<Rightarrow> (p # evs, Inr serializable_items)
                | (evs, Inl e) \<Rightarrow>
                    (p # evs @ [Print (''Error getting '' @ rk @ '': '' @ exn_str e)], Inr []))
      | _ \<Rightarrow> ([], Inr []))))"

text \<open>
  The value returned is the dictionary \<^verbatim>\<open>{"error": msg}\<close> or the serialized object.
  A parameter with a default value is an \<open>arg\<close>: \<open>Omitted\<close> when the call leaves it out.
\<close>

datatype 'd description = ErrorDocument string | Document 'd

datatype 'a arg = Omitted | Given 'a

fun arg_value :: "'a \<Rightarrow> 'a arg \<Rightarrow> 'a" where
  "arg_value d Omitted = d"
| "arg_value d (Given v) = v"

definition read_call ::
  "('o, 'd) backend \<Rightarrow> api_handle \<Rightarrow> string \<Rightarrow> string \<Rightarrow> string \<Rightarrow> string
     \<Rightarrow> event list \<times> (exn + 'o)" where
  "read_call B api resource_kind resource_type resource_name namespace =
     (if resource_kind \<noteq> ''namespace''
      then call_method B api (''read_namespaced_'' @ resource_type)
             [(''name'', PStr resource_name), (''namespace'', PStr namespace)]
      else call_method B api (''read_'' @ resource_type) [(''name'', PStr resource_name)])"

definition describe_resource_try ::
  "kube_client \<Rightarrow> ('o, 'd) backend \<Rightarrow> api_handle \<Rightarrow> string \<Rightarrow> string \<Rightarrow> string \<Rightarrow> string
     \<Rightarrow> event list \<times> (exn + 'd)" where
  "describe_resource_try c B api resource_kind resource_type resource_name namespace =
     (case read_call B api resource_kind resource_type resource_name namespace of
        (evs, Inl e) \<Rightarrow> (evs, Inl e)
      | (evs, Inr result) \<Rightarrow> (evs, sanitize_item c B result))"

definition describe_resource ::
  "kube_client \<Rightarrow> ('o, 'd) backend \<Rightarrow> string \<Rightarrow> string \<Rightarrow> string arg
     \<Rightarrow> event list \<times> (exn + 'd description)" where
  "describe_resource c B resource_kind resource_name namespace_arg =
     (let namespace = arg_value ''default'' namespace_arg in
      case normalize_resource_kind c resource_kind of
        Inl e \<Rightarrow> ([], Inl e)
      | Inr rk \<Rightarrow>
     (case get_api_client_and_resource_type c rk of
        Inl e \<Rightarrow> ([], Inl e)
      | Inr (api_opt, rt_opt) \<Rightarrow>
     (case (api_opt, rt_opt) of
        (Some api, Some resource_type) \<Rightarrow>
          if resource_type = []
          then ([], Inr (ErrorDocument (''Unsupported resource kind: '' @ rk)))
          else
            (let p = Print (''Describing '' @ rk @ '' '' @ resource_name @
                            '' in namespace '' @ namespace)
             in case describe_resource_try c B api rk resource_type resource_name namespace of
                  (evs, Inr resource_dict) \<Rightarrow> (p # evs, Inr (Document resource_dict))
                | (evs, Inl e) \<Rightarrow>
                    (p # evs @
                       [Print (''Error describing '' @ rk @ '' '' @ resource_name @ '': '' @
                               exn_str e)],
                     Inr (ErrorDocument (''Failed to describe '' @ rk @ '' '' @ resource_name @
                                         '': '' @ exn_str e))))
      | _ \<Rightarrow> ([], Inr (ErrorDocument (''Unsupported resource kind: '' @ rk))))))"

text \<open>
  The class body defines \<^verbatim>\<open>get_pod_logs\<close> twice; the second definition (line 168)
  replaces the first, so it is the one every call reaches.
\<close>

definition get_pod_logs_try ::
  "kube_client \<Rightarrow> ('o, 'd) backend \<Rightarrow> string \<Rightarrow> string option \<Rightarrow> string \<Rightarrow> int
     \<Rightarrow> event list \<times> (exn + string)" where
  "get_pod_logs_try c B pod_name container namespace tail_lines =
     (case get_attr ''core_v1_api'' (core_v1_api c) of
        Inl e \<Rightarrow> ([], Inl e)
      | Inr h \<Rightarrow>
          (let kw = [(''name'', PStr pod_name),
                     (''namespace'', PStr namespace),
                     (''container'', case container of None \<Rightarrow> PNone | Some ct \<Rightarrow> PStr ct),
                     (''pretty'', PBool True),
                     (''tail_lines'', PInt tail_lines)]
           in ([Call h ''read_namespaced_pod_log'' kw], read_namespaced_pod_log B kw)))"

definition get_pod_logs ::
  "kube_client \<Rightarrow> ('o, 'd) backend \<Rightarrow> string \<Rightarrow> string option arg \<Rightarrow> string arg \<Rightarrow> int arg
     \<Rightarrow> event list \<times> (exn + string)" where
  "get_pod_logs c B pod_name container_arg namespace_arg tail_lines_arg =
     (let container = arg_value None container_arg;
          namespace = arg_value ''default'' namespace_arg;
          tail_lines = arg_value 100 tail_lines_arg
      in case get_pod_logs_try c B pod_name container namespace tail_lines of
           (evs, Inr logs) \<Rightarrow> (evs, Inr logs)
         | (evs, Inl e) \<Rightarrow>
             (evs @ [Print (''Error getting logs for pod '' @ pod_name @ '': '' @ exn_str e)],
              Inr (''Failed to get logs: '' @ exn_str e)))"

section \<open>The registry contract as the specification words it\<close>

text \<open>
  Section 4.1 of the specification: lowercase the input; look it up in the table; if it
  is absent and ends with an "s", strip one trailing "s" and look up again; otherwise
  (or if still absent) the kind is not found. This definition follows those words; the
  theorems compare it with the functions translated from the source.
\<close>

definition spec_resolve :: "registry \<Rightarrow> string \<Rightarrow> (api_handle \<times> string) option" where
  "spec_resolve table kind =
     (let k = lower kind in
      case map_of table k of
        Some d \<Rightarrow> Some d
      | None \<Rightarrow> if endswith k ''s'' then map_of table (butlast k) else None)"

section \<open>Observing a run\<close>

fun is_call :: "event \<Rightarrow> bool" where
  "is_call (Call h m kw) = True"
| "is_call (Print line) = False"

definition calls :: "event list \<Rightarrow> event list" where
  "calls evs = filter is_call evs"

text \<open>
  A small cluster to run the operations on. Objects and documents are named by strings.
  The core API has the methods the library really has for pods, namespaces and nodes
  (there is no namespaced method for a node); any other name is a missing attribute. Reading the pod \<open>web\<close> fails with the
  error of the server; logs exist for the pod \<open>p1\<close> only.
\<close>

definition sample_getattr ::
  "api_handle \<Rightarrow> string \<Rightarrow> (kwargs \<Rightarrow> exn + string) option" where
  "sample_getattr h m =
     (if h = CoreV1Api \<and> m = ''list_namespaced_pod'' then Some (\<lambda>kw. Inr ''PodList'')
      else if h = CoreV1Api \<and> m = ''list_pod_for_all_namespaces''
        then Some (\<lambda>kw. Inr ''PodList'')
      else if h = CoreV1Api \<and> m = ''list_namespace'' then Some (\<lambda>kw. Inr ''NamespaceList'')
      else if h = CoreV1Api \<and> m = ''list_node'' then Some (\<lambda>kw. Inr ''NodeList'')
      else if h = CoreV1Api \<and> m = ''read_namespace'' then Some (\<lambda>kw. Inr ''Namespace'')
      else if h = CoreV1Api \<and> m = ''read_node'' then Some (\<lambda>kw. Inr ''Node'')
      else if h = CoreV1Api \<and> m = ''read_namespaced_pod''
        then Some (\<lambda>kw. Inl (OtherException ''(404) Reason: Not Found''))
      else None)"

definition sample_backend :: "(string, string) backend" where
  "sample_backend =
     \<lparr>getattr = sample_getattr,
      items = (\<lambda>r. Inr [r @ ''.items[0]'', r @ ''.items[1]'']),
      sanitize_for_serialization = (\<lambda>x. Inr (''dict of '' @ x)),
      read_namespaced_pod_log =
        (\<lambda>kw. if map_of kw ''name'' = Some (PStr ''p1'') then Inr ''line 1''
              else Inl (OtherException ''(404) Reason: Not Found''))\<rparr>"

definition connected_client :: kube_client where
  "connected_client = app_lifespan_client None None"

definition unconnected_client :: kube_client where
  "unconnected_client =
     app_lifespan_client (Some (0, OtherException ''Invalid kube-config file''))
                         (Some (0, OtherException ''Invalid kube-config file''))"

section \<open>Facts about the client state and the registry\<close>

lemma connected_client_eq:
  "connected_client = \<lparr>api_client = Some ApiClient, core_v1_api = Some CoreV1Api,
     apps_v1_api = Some AppsV1Api, ingress_v1_api = Some NetworkingV1Api,
     networking_v1_api = Some NetworkingV1Api, events_1_api = Some EventsV1Api\<rparr>"
  by (simp add: connected_client_def app_lifespan_client_def aconnect_def init_def
      connect_block_def init_assignments_def aconnect_assignments_def new_object_def)

lemma unconnected_client_eq: "unconnected_client = new_object"
  by (simp add: unconnected_client_def app_lifespan_client_def aconnect_def init_def
      connect_block_def)

lemma mapping_connected:
  "get_resource_mapping connected_client =
     Inr (resource_table CoreV1Api AppsV1Api NetworkingV1Api EventsV1Api)"
  by (simp add: connected_client_eq get_resource_mapping_def get_attr_def)

lemma mapping_is_table:
  "get_resource_mapping c = Inr t \<Longrightarrow> \<exists>core apps net ev. t = resource_table core apps net ev"
  by (auto simp: get_resource_mapping_def get_attr_def split: option.splits)

lemma table_key_lower:
  "map_of (resource_table core apps net ev) k = Some d \<Longrightarrow> lower k = k"
  by (auto simp: resource_table_def lower_def lower_char_def split: if_splits)

lemma table_type_nonempty:
  "map_of (resource_table core apps net ev) k = Some (a, rt) \<Longrightarrow> rt \<noteq> []"
  by (auto simp: resource_table_def split: if_splits)

lemma normalize_eq:
  "get_resource_mapping c = Inr t \<Longrightarrow>
   normalize_resource_kind c x =
     Inr (if endswith (lower x) ''s'' \<and> map_of t (lower x) = None
          then butlast (lower x) else lower x)"
  by (simp add: normalize_resource_kind_def Let_def)

lemma normalize_raises:
  "get_resource_mapping c = Inl e \<Longrightarrow> normalize_resource_kind c x = Inl e"
  by (simp add: normalize_resource_kind_def)

lemma resolve_eq:
  "get_resource_mapping c = Inr t \<Longrightarrow>
   get_api_client_and_resource_type c x =
     Inr (case map_of t (if endswith (lower x) ''s'' \<and> map_of t (lower x) = None
                          then butlast (lower x) else lower x) of
            None \<Rightarrow> (None, None)
          | Some (api, resource_type) \<Rightarrow> (Some api, Some resource_type))"
  by (simp add: get_api_client_and_resource_type_def normalize_eq)

lemma resolved_mapping:
  "get_api_client_and_resource_type c x = Inr r \<Longrightarrow> \<exists>t. get_resource_mapping c = Inr t"
  by (auto simp: get_api_client_and_resource_type_def normalize_resource_kind_def Let_def
      split: sum.splits)

lemma key_normalizes_to_itself:
  assumes "get_resource_mapping c = Inr t" and "map_of t k = Some d"
  shows "normalize_resource_kind c k = Inr k"
proof -
  from assms(1) obtain core apps net ev where t: "t = resource_table core apps net ev"
    using mapping_is_table by blast
  with assms(2) have "lower k = k" using table_key_lower by blast
  with assms show ?thesis by (simp add: normalize_eq)
qed

lemma resolved_is_key:
  assumes "get_resource_mapping c = Inr t"
    and "get_api_client_and_resource_type c x = Inr (Some a, Some rt)"
  shows "\<exists>y. normalize_resource_kind c x = Inr y \<and> map_of t y = Some (a, rt)"
  using assms by (auto simp: resolve_eq normalize_eq split: option.splits if_splits)

lemmas run_simps = mapping_connected resource_table_def lower_def lower_char_def endswith_def
  char_of_def bit_simps

section \<open>Facts about the gateway operations\<close>

lemma resolved_type_nonempty:
  assumes "get_api_client_and_resource_type c k = Inr (Some api, Some rt)"
  shows "rt \<noteq> []"
proof -
  from assms obtain t where t: "get_resource_mapping c = Inr t"
    using resolved_mapping by blast
  with assms obtain y where "map_of t y = Some (api, rt)"
    using resolved_is_key by blast
  moreover from t obtain core apps net ev where "t = resource_table core apps net ev"
    using mapping_is_table by blast
  ultimately show ?thesis using table_type_nonempty by blast
qed

lemma calls_call_method:
  "calls (fst (call_method B api m kw)) = fst (call_method B api m kw)"
  by (simp add: call_method_def calls_def split: option.splits)

lemma calls_call_method_result:
  "call_method B api m kw = (evs, r) \<Longrightarrow> calls evs = evs"
  by (auto simp: call_method_def calls_def split: option.splits)

lemma calls_append: "calls (xs @ ys) = calls xs @ calls ys"
  by (simp add: calls_def)

lemma calls_list_unscoped:
  "calls (fst (list_unscoped B api rt)) = fst (list_unscoped B api rt)"
proof -
  obtain evs1 r1 where a: "call_method B api (''list_'' @ rt @ ''_for_all_namespaces'') [] =
      (evs1, r1)"
    by (cases "call_method B api (''list_'' @ rt @ ''_for_all_namespaces'') []")
  obtain evs2 r2 where b: "call_method B api (''list_'' @ rt) [] = (evs2, r2)"
    by (cases "call_method B api (''list_'' @ rt) []")
  have 1: "calls evs1 = evs1" using a by (rule calls_call_method_result)
  have 2: "calls evs2 = evs2" using b by (rule calls_call_method_result)
  show ?thesis
    using a b 1 2
    by (simp add: list_unscoped_def calls_append split: sum.splits exn.splits)
qed

lemma calls_list_call:
  "calls (fst (list_call B api k rt ns)) = fst (list_call B api k rt ns)"
  by (simp add: list_call_def calls_list_unscoped calls_call_method split: option.splits)

lemma calls_Print: "calls (Print l # evs) = calls evs" "calls (evs @ [Print l]) = calls evs"
  by (simp_all add: calls_def)

lemma get_resources_calls:
  assumes "normalize_resource_kind c kind = Inr k"
    and "get_api_client_and_resource_type c k = Inr (Some api, Some rt)"
  shows "calls (fst (get_resources c B kind ns)) = fst (list_call B api k rt ns)"
proof -
  have rt: "rt \<noteq> []" using assms(2) by (rule resolved_type_nonempty)
  obtain evs r where lc: "list_call B api k rt ns = (evs, r)" by (cases "list_call B api k rt ns")
  have "calls evs = evs" using calls_list_call [of B api k rt ns] lc by simp
  then show ?thesis
    using assms rt lc
    by (cases r) (simp_all add: get_resources_def get_resources_try_def Let_def calls_Print
        split: sum.splits)
qed

lemma get_resources_unresolved:
  "normalize_resource_kind c kind = Inr k \<Longrightarrow>
   get_api_client_and_resource_type c k = Inr (None, None) \<Longrightarrow>
   get_resources c B kind ns = ([], Inr [])"
  by (simp add: get_resources_def)

lemma describe_resource_unresolved:
  "normalize_resource_kind c kind = Inr k \<Longrightarrow>
   get_api_client_and_resource_type c k = Inr (None, None) \<Longrightarrow>
   describe_resource c B kind name nsarg =
     ([], Inr (ErrorDocument (''Unsupported resource kind: '' @ k)))"
  by (simp add: describe_resource_def)

lemmas sample_simps = sample_backend_def sample_getattr_def call_method_def

lemma normalize_pods: "normalize_resource_kind connected_client ''Pods'' = Inr ''pod''"
  by (simp add: normalize_eq [OF mapping_connected] run_simps)

lemma resolve_pod:
  "get_api_client_and_resource_type connected_client ''pod'' = Inr (Some CoreV1Api, Some ''pod'')"
  by (simp add: resolve_eq [OF mapping_connected] run_simps)

lemma describe_resource_calls:
  assumes "normalize_resource_kind c kind = Inr k"
    and "get_api_client_and_resource_type c k = Inr (Some api, Some rt)"
  shows "calls (fst (describe_resource c B kind name nsarg)) =
           fst (read_call B api k rt name (arg_value ''default'' nsarg))"
proof -
  have rt: "rt \<noteq> []" using assms(2) by (rule resolved_type_nonempty)
  obtain evs r where rc: "read_call B api k rt name (arg_value ''default'' nsarg) = (evs, r)"
    by (cases "read_call B api k rt name (arg_value ''default'' nsarg)")
  have "calls evs = evs"
  proof (cases "k = ''namespace''")
    case True
    with rc have "call_method B api (''read_'' @ rt) [(''name'', PStr name)] = (evs, r)"
      by (simp add: read_call_def)
    then show ?thesis by (rule calls_call_method_result)
  next
    case False
    with rc have "call_method B api (''read_namespaced_'' @ rt)
        [(''name'', PStr name), (''namespace'', PStr (arg_value ''default'' nsarg))] = (evs, r)"
      by (simp add: read_call_def)
    then show ?thesis by (rule calls_call_method_result)
  qed
  then show ?thesis
    using assms rt rc
    by (cases r) (simp_all add: describe_resource_def describe_resource_try_def Let_def calls_Print
        split: sum.splits)
qed

lemma resolved_namespace:
  assumes "get_api_client_and_resource_type c ''namespace'' = Inr (Some api, Some rt)"
  shows "rt = ''namespace''"
proof -
  from assms obtain t where t: "get_resource_mapping c = Inr t"
    using resolved_mapping by blast
  then obtain core apps net ev where "t = resource_table core apps net ev"
    using mapping_is_table by blast
  with assms t show ?thesis
    by (simp add: resolve_eq resource_table_def lower_def lower_char_def endswith_def)
qed

lemma normalize_namespaces:
  "normalize_resource_kind connected_client ''Namespaces'' = Inr ''namespace''"
  by (simp add: normalize_eq [OF mapping_connected] run_simps)

lemma resolve_namespace:
  "get_api_client_and_resource_type connected_client ''namespace'' =
     Inr (Some CoreV1Api, Some ''namespace'')"
  by (simp add: resolve_eq [OF mapping_connected] run_simps)

lemma normalize_node: "normalize_resource_kind connected_client ''node'' = Inr ''node''"
  by (simp add: normalize_eq [OF mapping_connected] run_simps)

lemma resolve_node:
  "get_api_client_and_resource_type connected_client ''node'' = Inr (Some CoreV1Api, Some ''node'')"
  by (simp add: resolve_eq [OF mapping_connected] run_simps)

lemma unresolved_lower_not_key:
  assumes m: "get_resource_mapping c = Inr t"
    and n: "normalize_resource_kind c kind = Inr k"
    and u: "get_api_client_and_resource_type c k = Inr (None, None)"
  shows "map_of t (lower kind) = None"
proof (rule ccontr)
  assume "map_of t (lower kind) \<noteq> None"
  then obtain d where d: "map_of t (lower kind) = Some d" by blast
  with m n have k: "k = lower kind" by (simp add: normalize_eq)
  from m d have "normalize_resource_kind c (lower kind) = Inr (lower kind)"
    by (rule key_normalizes_to_itself)
  with m d k u show False
    by (simp add: get_api_client_and_resource_type_def split: prod.splits)
qed

lemma normalize_frobnicator:
  "normalize_resource_kind connected_client ''frobnicator'' = Inr ''frobnicator''"
  by (simp add: normalize_eq [OF mapping_connected] run_simps)

lemma normalize_Frobnicators:
  "normalize_resource_kind connected_client ''Frobnicators'' = Inr ''frobnicator''"
  by (simp add: normalize_eq [OF mapping_connected] run_simps)

lemma resolve_frobnicator:
  "get_api_client_and_resource_type connected_client ''frobnicator'' = Inr (None, None)"
  by (simp add: resolve_eq [OF mapping_connected] run_simps)

lemma normalize_pod: "normalize_resource_kind connected_client ''pod'' = Inr ''pod''"
  by (simp add: normalize_eq [OF mapping_connected] run_simps)

lemma describe_resource_read_failure:
  assumes "normalize_resource_kind c kind = Inr k"
    and "get_api_client_and_resource_type c k = Inr (Some api, Some rt)"
    and "snd (read_call B api k rt name (arg_value ''default'' nsarg)) = Inl e"
  shows "snd (describe_resource c B kind name nsarg) =
           Inr (ErrorDocument (''Failed to describe '' @ k @ '' '' @ name @ '': '' @ exn_str e))"
proof -
  have rt: "rt \<noteq> []" using assms(2) by (rule resolved_type_nonempty)
  obtain evs where "read_call B api k rt name (arg_value ''default'' nsarg) = (evs, Inl e)"
    using assms(3) by (cases "read_call B api k rt name (arg_value ''default'' nsarg)") simp
  with assms(1,2) rt show ?thesis
    by (simp add: describe_resource_def describe_resource_try_def Let_def)
qed

lemma read_pod_web_fails:
  "snd (read_call sample_backend CoreV1Api ''pod'' ''pod'' ''web'' (arg_value ''default'' (Given ''team-a'')))
     = Inl (OtherException ''(404) Reason: Not Found'')"
  by (simp add: read_call_def sample_simps)

lemma connected_core: "core_v1_api connected_client = Some CoreV1Api"
  by (simp add: connected_client_eq)

lemma logs_of_p2_fail:
  "snd (get_pod_logs_try connected_client sample_backend ''p2'' (arg_value None (Given (Some ''app'')))
          (arg_value ''default'' (Given ''team-a'')) (arg_value 100 (Given 5))) =
     Inl (OtherException ''(404) Reason: Not Found'')"
  by (simp add: get_pod_logs_try_def get_attr_def connected_client_eq Let_def sample_backend_def)

lemma get_pod_logs_returns:
  "\<exists>s. snd (get_pod_logs c B pod_name container_arg namespace_arg tail_lines_arg) = Inr s"
  by (simp add: get_pod_logs_def Let_def split: prod.splits sum.splits)

lemma get_resources_returns_when_registry_available:
  assumes "get_resource_mapping c = Inr t"
  shows "\<exists>docs. snd (get_resources c B kind ns) = Inr docs"
  using assms
  by (simp add: get_resources_def normalize_eq resolve_eq Let_def
      split: prod.splits sum.splits option.splits)

text \<open>
  \<^verbatim>\<open>get_resources\<close> and \<^verbatim>\<open>describe_resource\<close> normalize the kind themselves and
  then call the resolution, which normalizes again: a doubled plural does not resolve, yet
  the gateway lists the resource.
\<close>

lemma doubled_plural_is_listed:
  "get_api_client_and_resource_type connected_client ''podss'' = Inr (None, None) \<and>
   calls (fst (get_resources connected_client sample_backend ''podss'' (Some ''ns1''))) =
     [Call CoreV1Api ''list_namespaced_pod'' [(''namespace'', PStr ''ns1'')]]"
proof -
  have n: "normalize_resource_kind connected_client ''podss'' = Inr ''pods''"
    by (simp add: normalize_eq [OF mapping_connected] run_simps)
  have r: "get_api_client_and_resource_type connected_client ''pods'' =
             Inr (Some CoreV1Api, Some ''pod'')"
    by (simp add: resolve_eq [OF mapping_connected] run_simps)
  have u: "get_api_client_and_resource_type connected_client ''podss'' = Inr (None, None)"
    by (simp add: resolve_eq [OF mapping_connected] run_simps)
  show ?thesis
    by (simp add: u get_resources_calls [OF n r] list_call_def sample_simps)
qed

text \<open>
  A client on which only the constructor ran has \<^verbatim>\<open>ingress_v1_api\<close> where the registry
  reads \<^verbatim>\<open>networking_v1_api\<close>.
\<close>

lemma get_resources_raises_without_aconnect:
  "get_resources (snd (init None)) sample_backend ''pod'' (Some '''') =
     ([], Inl (AttributeError (no_attribute ''KubeClient'' ''networking_v1_api'')))"
  by (simp add: get_resources_def normalize_resource_kind_def get_resource_mapping_def
      get_attr_def init_def connect_block_def init_assignments_def new_object_def Let_def)

section \<open>Resolution of a resource kind\<close>

text \<open>
  C2. For every input string, \<^verbatim>\<open>_get_api_client_and_resource_type\<close> (which calls
  \<^verbatim>\<open>_normalize_resource_kind\<close>) computes exactly the resolution of the specification:
  lowercase, look up, strip one trailing "s" if the lookup failed and the string ends with
  "s", look up again, and otherwise report that nothing was found, which the code does by
  returning the pair \<^verbatim>\<open>(None, None)\<close>. When the registry cannot be built because an
  attribute of the client is missing, the exception of that attribute is raised.
\<close>

theorem resolve_refines_spec:
  "get_api_client_and_resource_type c kind =
     (case get_resource_mapping c of
        Inl e \<Rightarrow> Inl e
      | Inr table \<Rightarrow>
          Inr (case spec_resolve table kind of
                 None \<Rightarrow> (None, None)
               | Some (api, resource_type) \<Rightarrow> (Some api, Some resource_type)))"
  by (auto simp: get_api_client_and_resource_type_def normalize_resource_kind_def
      spec_resolve_def Let_def split: sum.splits option.splits)

section \<open>Normalization\<close>

text \<open>
  C3. Normalization is idempotent on the known kind strings: when the registry is
  available, a key of the registry is returned unchanged, and for every string \<open>x\<close> that
  resolves to a registry entry, normalizing the normal form of \<open>x\<close> gives that normal
  form again.
\<close>

theorem normalize_idempotent_on_known_kinds:
  assumes "get_resource_mapping c = Inr t"
  shows "(\<forall>d. map_of t x = Some d \<longrightarrow> normalize_resource_kind c x = Inr x) \<and>
         (\<forall>a rt. get_api_client_and_resource_type c x = Inr (Some a, Some rt) \<longrightarrow>
            (\<exists>y. normalize_resource_kind c x = Inr y \<and> normalize_resource_kind c y = Inr y))"
proof (intro conjI allI impI)
  fix d assume "map_of t x = Some d"
  with assms show "normalize_resource_kind c x = Inr x" by (rule key_normalizes_to_itself)
next
  fix a rt assume "get_api_client_and_resource_type c x = Inr (Some a, Some rt)"
  with assms obtain y where y: "normalize_resource_kind c x = Inr y" "map_of t y = Some (a, rt)"
    using resolved_is_key by blast
  from assms y(2) have "normalize_resource_kind c y = Inr y" by (rule key_normalizes_to_itself)
  with y(1) show "\<exists>y. normalize_resource_kind c x = Inr y \<and> normalize_resource_kind c y = Inr y"
    by blast
qed

theorem normalize_idempotent_witness:
  "get_resource_mapping connected_client =
     Inr (resource_table CoreV1Api AppsV1Api NetworkingV1Api EventsV1Api) \<and>
   normalize_resource_kind connected_client ''ingress'' = Inr ''ingress'' \<and>
   normalize_resource_kind connected_client ''Pods'' = Inr ''pod'' \<and>
   normalize_resource_kind connected_client ''pod'' = Inr ''pod''"
proof -
  have m: "get_resource_mapping connected_client =
     Inr (resource_table CoreV1Api AppsV1Api NetworkingV1Api EventsV1Api)"
    by (rule mapping_connected)
  have k: "map_of (resource_table CoreV1Api AppsV1Api NetworkingV1Api EventsV1Api) ''ingress''
             = Some (NetworkingV1Api, ''ingress'')"
    by (simp add: resource_table_def)
  have r: "get_api_client_and_resource_type connected_client ''Pods'' = Inr (Some CoreV1Api, Some ''pod'')"
    by (simp add: resolve_eq [OF mapping_connected] run_simps)
  have n: "normalize_resource_kind connected_client ''Pods'' = Inr ''pod''"
    by (simp add: normalize_eq [OF mapping_connected] run_simps)
  from normalize_idempotent_on_known_kinds [OF m, of "''ingress''"] k
  have 1: "normalize_resource_kind connected_client ''ingress'' = Inr ''ingress''" by blast
  from normalize_idempotent_on_known_kinds [OF m, of "''Pods''"] r n
  have 2: "normalize_resource_kind connected_client ''pod'' = Inr ''pod''" by auto
  from m 1 2 n show ?thesis by simp
qed

section \<open>Dispatch of the list and read operations\<close>

text \<open>
  The kind "namespace" is the one kind the dispatch treats as cluster-scoped: listing it
  reaches the plain list method through the fallback, and describing it reads it by name
  alone. A node is listed the same way when no namespace is given.
\<close>

lemma namespace_kind_takes_unscoped_path:
  "calls (fst (get_resources connected_client sample_backend ''Namespaces'' (Some ''ns1''))) =
     [Call CoreV1Api ''list_namespace'' []] \<and>
   calls (fst (describe_resource connected_client sample_backend ''Namespaces'' ''ns1''
                 (Given ''ns1''))) =
     [Call CoreV1Api ''read_namespace'' [(''name'', PStr ''ns1'')]] \<and>
   calls (fst (get_resources connected_client sample_backend ''node'' None)) =
     [Call CoreV1Api ''list_node'' []]"
  by (simp add: get_resources_calls [OF normalize_namespaces resolve_namespace]
      describe_resource_calls [OF normalize_namespaces resolve_namespace]
      get_resources_calls [OF normalize_node resolve_node]
      list_call_def list_unscoped_def read_call_def sample_simps)

text \<open>
  C5 as stated fails for "node", a kind that resolves and is not "namespace": with the
  namespace argument "ns1" the code looks up \<^verbatim>\<open>list_namespaced_node\<close>, which the core
  API does not have, so no operation of the backend is invoked and the empty list is
  returned.
\<close>

theorem namespaced_list_not_invoked_for_node:
  "get_api_client_and_resource_type connected_client ''node'' =
     Inr (Some CoreV1Api, Some ''node'') \<and>
   calls (fst (get_resources connected_client sample_backend ''node'' (Some ''ns1''))) = [] \<and>
   snd (get_resources connected_client sample_backend ''node'' (Some ''ns1'')) = Inr []"
  by (simp add: resolve_node normalize_node get_resources_def get_resources_try_def
      list_call_def sample_simps calls_def)

text \<open>
  C5, as the code has it. For every kind whose normal form resolves and is not
  "namespace", and whose API object has the namespaced list method of the resource type,
  and for every non-empty namespace argument, \<^verbatim>\<open>get_resources\<close> invokes exactly one
  operation of the backend: that namespaced list method, with the namespace as its
  argument. The method for all namespaces is not invoked.
\<close>

theorem namespaced_list_dispatch:
  assumes "normalize_resource_kind c kind = Inr k"
    and "k \<noteq> ''namespace''"
    and "get_api_client_and_resource_type c k = Inr (Some api, Some rt)"
    and "ns \<noteq> []"
    and "getattr B api (''list_namespaced_'' @ rt) = Some f"
  shows "calls (fst (get_resources c B kind (Some ns))) =
           [Call api (''list_namespaced_'' @ rt) [(''namespace'', PStr ns)]]"
  using assms by (simp add: get_resources_calls list_call_def call_method_def)

theorem namespaced_list_dispatch_witness:
  "normalize_resource_kind connected_client ''Pods'' = Inr ''pod'' \<and>
   ''pod'' \<noteq> ''namespace'' \<and>
   get_api_client_and_resource_type connected_client ''pod'' = Inr (Some CoreV1Api, Some ''pod'') \<and>
   ''ns1'' \<noteq> [] \<and>
   getattr sample_backend CoreV1Api (''list_namespaced_'' @ ''pod'') =
     Some (\<lambda>kw. Inr ''PodList'') \<and>
   calls (fst (get_resources connected_client sample_backend ''Pods'' (Some ''ns1''))) =
     [Call CoreV1Api ''list_namespaced_pod'' [(''namespace'', PStr ''ns1'')]]"
proof -
  have g: "getattr sample_backend CoreV1Api (''list_namespaced_'' @ ''pod'') =
             Some (\<lambda>kw. Inr ''PodList'')"
    by (simp add: sample_backend_def sample_getattr_def)
  show ?thesis
    using namespaced_list_dispatch [OF normalize_pods _ resolve_pod _ g, of "''ns1''"]
      normalize_pods resolve_pod g
    by simp
qed

text \<open>
  C1 fails on the code for "node". The dispatch special-cases the kind "namespace" only, so
  a node is sent to the namespaced methods, which the core API does not have: describing
  the node \<open>n1\<close> (with the default namespace) and listing nodes with the namespace "ns1"
  invoke nothing on the backend, neither \<^verbatim>\<open>read_node\<close> nor \<^verbatim>\<open>list_node\<close>, and return
  the error document and the empty list.
\<close>

theorem node_never_takes_unscoped_path:
  "describe_resource connected_client sample_backend ''node'' ''n1'' Omitted =
     ([Print ''Describing node n1 in namespace default'',
       Print (''Error describing node n1: '' @
              no_attribute ''CoreV1Api'' ''read_namespaced_node'')],
      Inr (ErrorDocument (''Failed to describe node n1: '' @
                          no_attribute ''CoreV1Api'' ''read_namespaced_node''))) \<and>
   get_resources connected_client sample_backend ''node'' (Some ''ns1'') =
     ([Print ''Getting node from ns1'',
       Print (''Error getting node: '' @
              no_attribute ''CoreV1Api'' ''list_namespaced_node'')],
      Inr [])"
  by (simp add: describe_resource_def describe_resource_try_def read_call_def
      get_resources_def get_resources_try_def list_call_def
      normalize_node resolve_node sample_simps)

section \<open>Unsupported kinds\<close>

text \<open>
  C4 as stated fails on the wording of the message: for the kind "frobnicator" the
  document returned by \<^verbatim>\<open>describe_resource\<close> does not carry the message
  "unsupported resource kind: frobnicator"; the message of the code starts with a capital
  letter.
\<close>

theorem unsupported_kind_message_counterexample:
  "snd (describe_resource connected_client sample_backend ''frobnicator'' ''x'' (Given ''default''))
     \<noteq> Inr (ErrorDocument ''unsupported resource kind: frobnicator'')"
  by (simp add: describe_resource_unresolved [OF normalize_frobnicator resolve_frobnicator])

text \<open>
  C4, as the code has it. For every kind string whose normal form \<open>k\<close> does not resolve,
  \<^verbatim>\<open>get_resources\<close> returns the empty list without raising and without any call or
  output, and \<^verbatim>\<open>describe_resource\<close> returns, without raising, the error document
  whose message is "Unsupported resource kind: " followed by \<open>k\<close>.
\<close>

theorem unsupported_kind_soft_fail:
  assumes "normalize_resource_kind c kind = Inr k"
    and "get_api_client_and_resource_type c k = Inr (None, None)"
  shows "get_resources c B kind ns = ([], Inr []) \<and>
         describe_resource c B kind name nsarg =
           ([], Inr (ErrorDocument (''Unsupported resource kind: '' @ k)))"
  using assms by (simp add: get_resources_unresolved describe_resource_unresolved)

theorem unsupported_kind_soft_fail_witness:
  "normalize_resource_kind connected_client ''frobnicator'' = Inr ''frobnicator'' \<and>
   get_api_client_and_resource_type connected_client ''frobnicator'' = Inr (None, None) \<and>
   get_resources connected_client sample_backend ''frobnicator'' (Some ''default'') = ([], Inr []) \<and>
   describe_resource connected_client sample_backend ''frobnicator'' ''x'' (Given ''default'') =
     ([], Inr (ErrorDocument ''Unsupported resource kind: frobnicator''))"
  using unsupported_kind_soft_fail [OF normalize_frobnicator resolve_frobnicator,
      of sample_backend "Some ''default''" "''x''" "Given ''default''"]
    normalize_frobnicator resolve_frobnicator
  by simp

text \<open>
  C10. For every kind that does not resolve, the error document of
  \<^verbatim>\<open>describe_resource\<close> names the normal form of the input, that is the lowercased
  input with one trailing "s" removed when it has one, and not the string of the caller.
\<close>

theorem unsupported_kind_names_normal_form:
  assumes "normalize_resource_kind c kind = Inr k"
    and "get_api_client_and_resource_type c k = Inr (None, None)"
  shows "snd (describe_resource c B kind name nsarg) =
           Inr (ErrorDocument (''Unsupported resource kind: '' @
                  (if endswith (lower kind) ''s'' then butlast (lower kind) else lower kind)))"
proof -
  from assms(1) obtain t where m: "get_resource_mapping c = Inr t"
    by (auto simp: normalize_resource_kind_def Let_def split: sum.splits)
  from m assms have "map_of t (lower kind) = None" by (rule unresolved_lower_not_key)
  with m assms(1) have "k = (if endswith (lower kind) ''s'' then butlast (lower kind) else lower kind)"
    by (simp add: normalize_eq)
  with assms show ?thesis by (simp add: describe_resource_unresolved)
qed

theorem unsupported_kind_names_normal_form_witness:
  "normalize_resource_kind connected_client ''Frobnicators'' = Inr ''frobnicator'' \<and>
   get_api_client_and_resource_type connected_client ''frobnicator'' = Inr (None, None) \<and>
   snd (describe_resource connected_client sample_backend ''Frobnicators'' ''x'' Omitted) =
     Inr (ErrorDocument ''Unsupported resource kind: frobnicator'')"
  using unsupported_kind_names_normal_form [OF normalize_Frobnicators resolve_frobnicator,
      of sample_backend "''x''" Omitted]
    normalize_Frobnicators resolve_frobnicator
  by (simp add: lower_def lower_char_def endswith_def char_of_def bit_simps)

section \<open>Failures of the backend\<close>

text \<open>
  C8 as stated fails on the wording of the message: when reading the pod "web" fails, the
  message of the document is not "failed to describe pod web: ..." in lower case.
\<close>

theorem describe_failure_message_counterexample:
  "snd (describe_resource connected_client sample_backend ''pod'' ''web'' (Given ''team-a''))
     \<noteq> Inr (ErrorDocument ''failed to describe pod web: (404) Reason: Not Found'')"
  by (simp add: describe_resource_read_failure [OF normalize_pod resolve_pod read_pod_web_fails])

text \<open>
  C8, as the code has it. For every kind whose normal form \<open>k\<close> resolves, every name and
  every namespace, if the read on the backend fails with an exception \<open>e\<close>, then
  \<^verbatim>\<open>describe_resource\<close> does not raise and returns the error document whose message is
  "Failed to describe ", \<open>k\<close>, a space, the name, ": " and the text of \<open>e\<close>.
\<close>

theorem describe_failure_document:
  assumes "normalize_resource_kind c kind = Inr k"
    and "get_api_client_and_resource_type c k = Inr (Some api, Some rt)"
    and "snd (read_call B api k rt name (arg_value ''default'' nsarg)) = Inl e"
  shows "snd (describe_resource c B kind name nsarg) =
           Inr (ErrorDocument (''Failed to describe '' @ k @ '' '' @ name @ '': '' @ exn_str e))"
  using assms by (rule describe_resource_read_failure)

theorem describe_failure_document_witness:
  "normalize_resource_kind connected_client ''Pods'' = Inr ''pod'' \<and>
   get_api_client_and_resource_type connected_client ''pod'' = Inr (Some CoreV1Api, Some ''pod'') \<and>
   snd (read_call sample_backend CoreV1Api ''pod'' ''pod'' ''web''
          (arg_value ''default'' (Given ''team-a''))) =
     Inl (OtherException ''(404) Reason: Not Found'') \<and>
   snd (describe_resource connected_client sample_backend ''Pods'' ''web'' (Given ''team-a'')) =
     Inr (ErrorDocument ''Failed to describe pod web: (404) Reason: Not Found'')"
  using describe_failure_document [OF normalize_pods resolve_pod read_pod_web_fails]
    normalize_pods resolve_pod read_pod_web_fails
  by simp

text \<open>
  C6 fails on the code when the connection failed at start-up. Both \<^verbatim>\<open>__init__\<close> and
  \<^verbatim>\<open>aconnect\<close> print their warning and leave the client without its API attributes;
  \<^verbatim>\<open>get_resources\<close> then builds the registry before it enters its \<^verbatim>\<open>try\<close>, and
  the \<^verbatim>\<open>AttributeError\<close> of the missing attribute reaches the caller.
\<close>

theorem get_resources_raises_after_failed_startup:
  "get_resources unconnected_client sample_backend ''pod'' (Some '''') =
     ([], Inl (AttributeError (no_attribute ''KubeClient'' ''core_v1_api'')))"
  by (simp add: get_resources_def normalize_resource_kind_def get_resource_mapping_def
      get_attr_def unconnected_client_eq new_object_def Let_def)

section \<open>Pod logs\<close>

text \<open>
  C7. Called with a pod name only, on a client that holds its core API object,
  \<^verbatim>\<open>get_pod_logs\<close> makes exactly one call on the backend: the log method with the pod
  name, the namespace "default", no container, pretty output and a limit of 100 lines.
\<close>

theorem get_pod_logs_defaults:
  assumes "core_v1_api c = Some h"
  shows "calls (fst (get_pod_logs c B pod_name Omitted Omitted Omitted)) =
           [Call h ''read_namespaced_pod_log''
              [(''name'', PStr pod_name), (''namespace'', PStr ''default''),
               (''container'', PNone), (''pretty'', PBool True), (''tail_lines'', PInt 100)]]"
  using assms
  by (simp add: get_pod_logs_def get_pod_logs_try_def get_attr_def Let_def calls_def
      split: sum.splits)

theorem get_pod_logs_defaults_witness:
  "core_v1_api connected_client = Some CoreV1Api \<and>
   calls (fst (get_pod_logs connected_client sample_backend ''p1'' Omitted Omitted Omitted)) =
     [Call CoreV1Api ''read_namespaced_pod_log''
        [(''name'', PStr ''p1''), (''namespace'', PStr ''default''),
         (''container'', PNone), (''pretty'', PBool True), (''tail_lines'', PInt 100)]]"
  using get_pod_logs_defaults [OF connected_core, of sample_backend "''p1''"] connected_core
  by simp

text \<open>
  C9. For every pod name, container, namespace and line limit, if the retrieval of the logs
  raises an exception \<open>e\<close>, then \<^verbatim>\<open>get_pod_logs\<close> does not raise: it returns the
  string "Failed to get logs: " followed by the text of \<open>e\<close>, which is not empty and
  starts with that prefix.
\<close>

theorem get_pod_logs_failure_text:
  assumes "snd (get_pod_logs_try c B pod_name (arg_value None container_arg)
                  (arg_value ''default'' namespace_arg) (arg_value 100 tail_lines_arg)) = Inl e"
  shows "\<exists>s. snd (get_pod_logs c B pod_name container_arg namespace_arg tail_lines_arg) = Inr s \<and>
             s = ''Failed to get logs: '' @ exn_str e \<and>
             s \<noteq> [] \<and>
             take (length ''Failed to get logs: '') s = ''Failed to get logs: ''"
proof -
  obtain evs where "get_pod_logs_try c B pod_name (arg_value None container_arg)
      (arg_value ''default'' namespace_arg) (arg_value 100 tail_lines_arg) = (evs, Inl e)"
    using assms
    by (cases "get_pod_logs_try c B pod_name (arg_value None container_arg)
      (arg_value ''default'' namespace_arg) (arg_value 100 tail_lines_arg)") simp
  then show ?thesis by (simp add: get_pod_logs_def Let_def)
qed

theorem get_pod_logs_failure_text_witness:
  "snd (get_pod_logs_try connected_client sample_backend ''p2'' (arg_value None (Given (Some ''app'')))
          (arg_value ''default'' (Given ''team-a'')) (arg_value 100 (Given 5))) =
     Inl (OtherException ''(404) Reason: Not Found'') \<and>
   snd (get_pod_logs connected_client sample_backend ''p2'' (Given (Some ''app'')) (Given ''team-a'')
          (Given 5)) = Inr ''Failed to get logs: (404) Reason: Not Found''"
  using get_pod_logs_failure_text [OF logs_of_p2_fail] logs_of_p2_fail
  by simp

end
